theory Spec2Isabelle
  imports Complex_Main
begin

section \<open>Irregular ocean waves: the wave-field generator\<close>

text \<open>
  A shallow embedding of \<^verbatim>\<open>generate_irregular_waves\<close> from
  \<^verbatim>\<open>generate_2d_irregular_ocean_propagating_fields.py\<close>.

  Conventions of the model:
  \<^item> Python and numpy floats are idealised as \<^typ>\<open>real\<close>: rounding, overflow and
    the non-finite values of IEEE arithmetic are outside the model.
  \<^item> \<^verbatim>\<open>grid_size\<close> and \<^verbatim>\<open>num_waves\<close> are natural numbers (a negative
    \<^verbatim>\<open>grid_size\<close> is rejected by numpy before the function does anything; a negative
    \<^verbatim>\<open>num_waves\<close> gives the same empty loop as 0).
  \<^item> A 2D numpy array is a list of rows.
  \<^item> The process-wide random source of \<^verbatim>\<open>np.random.rand()\<close> is an explicit state:
    the stream of the draws still to come, threaded through every call.
  \<^item> The dictionary \<^verbatim>\<open>wave_params\<close> is a map from the index to a record of the six
    stored entries; the argument \<^verbatim>\<open>None\<close> is \<open>None\<close>.
  \<^item> An exception is a value \<open>Inl e\<close>.
\<close>

subsection \<open>Data model\<close>

datatype py_error = KeyError | ZeroDivisionError

record wave_component =
  amplitude :: real
  wavelength :: real
  kx :: real
  ky :: real
  phase :: real
  frequency :: real

type_synonym wave_params = "nat \<rightharpoonup> wave_component"

type_synonym field = "real list list"

type_synonym rng = "nat \<Rightarrow> real"

text \<open>
  \<^verbatim>\<open>np.random.rand()\<close>: the next draw, and the source advanced by one. The draws
  of numpy lie in \<open>[0, 1)\<close>, which \<open>unit_draws\<close> says of a source.
\<close>

definition rand :: "rng \<Rightarrow> real \<times> rng" where
  "rand g = (g 0, \<lambda>n. g (Suc n))"

definition unit_draws :: "rng \<Rightarrow> bool" where
  "unit_draws g \<longleftrightarrow> (\<forall>n. 0 \<le> g n \<and> g n < 1)"

text \<open>
  Division of Python floats. \<^verbatim>\<open>np.random.rand()\<close> without arguments and
  \<^verbatim>\<open>np.pi\<close> are Python floats, so \<^verbatim>\<open>2 * np.pi / wavelength\<close> is a division
  of Python floats, which raises \<^verbatim>\<open>ZeroDivisionError\<close> on a zero divisor
  (\<^verbatim>\<open>length_scale\<close> being a Python float or int, as in the docstring and the driver).
\<close>

definition py_div :: "real \<Rightarrow> real \<Rightarrow> py_error + real" where
  "py_div a b = (if b = 0 then Inl ZeroDivisionError else Inr (a / b))"

subsection \<open>The numpy operations used\<close>

text \<open>
  \<^verbatim>\<open>np.linspace(start, stop, num)\<close>: \<open>num\<close> evenly spaced samples with both ends
  included; the single sample of \<open>num = 1\<close> is \<open>start\<close>.
\<close>

definition linspace :: "real \<Rightarrow> real \<Rightarrow> nat \<Rightarrow> real list" where
  "linspace start stop num =
     (if num = 1 then [start]
      else map (\<lambda>j. start + real j * ((stop - start) / real (num - 1))) [0..<num])"

text \<open>
  \<^verbatim>\<open>np.meshgrid(x, y)\<close> with the default \<^verbatim>\<open>xy\<close> indexing: both results have
  \<open>length y\<close> rows and \<open>length x\<close> columns; the first repeats \<open>x\<close> in every row,
  the second holds \<open>y ! r\<close> all along row \<open>r\<close>.
\<close>

definition meshgrid :: "real list \<Rightarrow> real list \<Rightarrow> field \<times> field" where
  "meshgrid x y = (replicate (length y) x, map (\<lambda>v. replicate (length x) v) y)"

text \<open>\<^verbatim>\<open>np.zeros((rows, cols))\<close>.\<close>

definition zeros :: "nat \<Rightarrow> nat \<Rightarrow> field" where
  "zeros rows cols = replicate rows (replicate cols 0)"

text \<open>
  Elementwise arithmetic on arrays of one shape, and of an array with a scalar
  (broadcasting). In the generator all arrays have the shape of the grid.
\<close>

definition arr_add :: "field \<Rightarrow> field \<Rightarrow> field" where
  "arr_add A B = map2 (map2 (+)) A B"

definition scalar_mul :: "real \<Rightarrow> field \<Rightarrow> field" where
  "scalar_mul k A = map (map (\<lambda>v. k * v)) A"

definition sub_scalar :: "field \<Rightarrow> real \<Rightarrow> field" where
  "sub_scalar A k = map (map (\<lambda>v. v - k)) A"

definition add_scalar :: "field \<Rightarrow> real \<Rightarrow> field" where
  "add_scalar A k = map (map (\<lambda>v. v + k)) A"

definition arr_sin :: "field \<Rightarrow> field" where
  "arr_sin A = map (map sin) A"

subsection \<open>The loop body\<close>

text \<open>
  The branch \<^verbatim>\<open>time == 0\<close> (lines 36 to 44): five draws in the order of the source,
  the two divisions by the wavelength each evaluated before the draw of its line, and
  the component built from them.
\<close>

definition fresh_component :: "real \<Rightarrow> real \<Rightarrow> rng \<Rightarrow> py_error + (wave_component \<times> rng)" where
  "fresh_component length_scale speed g0 =
     (let (r1, g1) = rand g0;
          amplitude' = r1 / 10;
          (r2, g2) = rand g1;
          wavelength' = r2 * length_scale
      in case py_div (2 * pi) wavelength' of
           Inl e \<Rightarrow> Inl e
         | Inr q1 \<Rightarrow>
             (let (r3, g3) = rand g2;
                  kx' = q1 * (2 * r3 - 1)
              in case py_div (2 * pi) wavelength' of
                   Inl e \<Rightarrow> Inl e
                 | Inr q2 \<Rightarrow>
                     (let (r4, g4) = rand g3;
                          ky' = q2 * (2 * r4 - 1);
                          (r5, g5) = rand g4;
                          phase' = 2 * pi * r5;
                          frequency' = (speed / (2 * pi)) * sqrt (kx'\<^sup>2 + ky'\<^sup>2)
                      in Inr (\<lparr>amplitude = amplitude', wavelength = wavelength',
                               kx = kx', ky = ky', phase = phase',
                               frequency = frequency'\<rparr>, g5))))"

text \<open>
  The other branch (lines 47 to 52): the lookup \<^verbatim>\<open>wave_params[i]\<close>, which raises
  \<^verbatim>\<open>KeyError\<close> when the index has no entry.
\<close>

definition stored_component :: "wave_params \<Rightarrow> nat \<Rightarrow> py_error + wave_component" where
  "stored_component wave_params i =
     (case wave_params i of None \<Rightarrow> Inl KeyError | Some c \<Rightarrow> Inr c)"

text \<open>
  Line 55:
  \<^verbatim>\<open>eta += amplitude * np.sin(kx * x + ky * y - frequency * time + phase)\<close>.
\<close>

definition accumulate :: "field \<Rightarrow> field \<Rightarrow> real \<Rightarrow> wave_component \<Rightarrow> field \<Rightarrow> field" where
  "accumulate x y time c eta =
     arr_add eta
       (scalar_mul (amplitude c)
          (arr_sin
             (add_scalar
                (sub_scalar (arr_add (scalar_mul (kx c) x) (scalar_mul (ky c) y))
                   (frequency c * time))
                (phase c))))"

text \<open>One iteration of the loop, on the state \<open>(eta, wave_params, random source)\<close>.\<close>

definition wave_body ::
  "field \<Rightarrow> field \<Rightarrow> real \<Rightarrow> real \<Rightarrow> real \<Rightarrow> nat \<Rightarrow> field \<times> wave_params \<times> rng
     \<Rightarrow> py_error + (field \<times> wave_params \<times> rng)" where
  "wave_body x y length_scale time speed i s =
     (case s of (eta, wave_params, g) \<Rightarrow>
        if time = 0 then
          (case fresh_component length_scale speed g of
             Inl e \<Rightarrow> Inl e
           | Inr (c, g') \<Rightarrow> Inr (accumulate x y time c eta, wave_params(i \<mapsto> c), g'))
        else
          (case stored_component wave_params i of
             Inl e \<Rightarrow> Inl e
           | Inr c \<Rightarrow> Inr (accumulate x y time c eta, wave_params, g)))"

text \<open>The loop \<^verbatim>\<open>for i in range(num_waves)\<close>, stopping at the first exception.\<close>

fun wave_loop ::
  "field \<Rightarrow> field \<Rightarrow> real \<Rightarrow> real \<Rightarrow> real \<Rightarrow> nat list \<Rightarrow> field \<times> wave_params \<times> rng
     \<Rightarrow> py_error + (field \<times> wave_params \<times> rng)" where
  "wave_loop x y length_scale time speed [] s = Inr s"
| "wave_loop x y length_scale time speed (i # is) s =
     (case wave_body x y length_scale time speed i s of
        Inl e \<Rightarrow> Inl e
      | Inr s' \<Rightarrow> wave_loop x y length_scale time speed is s')"

subsection \<open>The generator\<close>

text \<open>
  The result is the pair the source returns, \<open>(eta, wave_params)\<close>, together with the
  random source as the call leaves it.
\<close>

definition generate_irregular_waves ::
  "nat \<Rightarrow> nat \<Rightarrow> real \<Rightarrow> real \<Rightarrow> real \<Rightarrow> wave_params option \<Rightarrow> rng
     \<Rightarrow> py_error + (field \<times> wave_params \<times> rng)" where
  "generate_irregular_waves grid_size num_waves length_scale time speed wave_params g =
     (let x0 = linspace 0 (2 * pi) grid_size;
          y0 = linspace 0 (2 * pi) grid_size;
          (x, y) = meshgrid x0 y0;
          eta = zeros grid_size grid_size;
          wave_params' = (case wave_params of None \<Rightarrow> Map.empty | Some m \<Rightarrow> m)
      in wave_loop x y length_scale time speed [0..<num_waves] (eta, wave_params', g))"

subsection \<open>The driver loop\<close>

text \<open>
  Lines 72 to 75: every frame calls the generator at \<^verbatim>\<open>time = frame * time_interval\<close>
  with the mapping the previous frame returned. \<^verbatim>\<open>range(num_frames)\<close> is the list of
  frames; the list of fields stands for what the plotting code receives.
\<close>

fun frames_loop ::
  "nat \<Rightarrow> nat \<Rightarrow> real \<Rightarrow> real \<Rightarrow> real \<Rightarrow> nat list \<Rightarrow> wave_params option \<Rightarrow> rng
     \<Rightarrow> py_error + (field list \<times> wave_params option \<times> rng)" where
  "frames_loop grid_size num_waves length_scale speed time_interval [] wave_params g =
     Inr ([], wave_params, g)"
| "frames_loop grid_size num_waves length_scale speed time_interval (frame # frames) wave_params g =
     (let time = real frame * time_interval
      in case generate_irregular_waves grid_size num_waves length_scale time speed wave_params g of
           Inl e \<Rightarrow> Inl e
         | Inr (eta, wave_params', g') \<Rightarrow>
             (case frames_loop grid_size num_waves length_scale speed time_interval frames
                     (Some wave_params') g' of
                Inl e \<Rightarrow> Inl e
              | Inr (etas, wave_params'', g'') \<Rightarrow> Inr (eta # etas, wave_params'', g'')))"

subsection \<open>Notions used to state the properties\<close>

text \<open>The \<open>n \<times> n\<close> array whose entry in row \<open>r\<close> and column \<open>c\<close> is \<open>f r c\<close>.\<close>

definition field_of :: "nat \<Rightarrow> (nat \<Rightarrow> nat \<Rightarrow> real) \<Rightarrow> field" where
  "field_of n f = map (\<lambda>r. map (\<lambda>c. f r c) [0..<n]) [0..<n]"

text \<open>The contribution of one component at the point \<open>(x, y)\<close> and the given time.\<close>

definition wave_term :: "wave_component \<Rightarrow> real \<Rightarrow> real \<Rightarrow> real \<Rightarrow> real" where
  "wave_term c x y time = amplitude c * sin (kx c * x + ky c * y - frequency c * time + phase c)"

text \<open>
  What the caller of the Python function observes: the exception, or the returned pair
  without the random source; and the height field alone.
\<close>

definition returned ::
  "py_error + (field \<times> wave_params \<times> rng) \<Rightarrow> py_error + (field \<times> wave_params)" where
  "returned r = (case r of Inl e \<Rightarrow> Inl e | Inr (eta, wave_params, g) \<Rightarrow> Inr (eta, wave_params))"

definition height_field :: "py_error + (field \<times> wave_params \<times> rng) \<Rightarrow> field option" where
  "height_field r = (case r of Inl e \<Rightarrow> None | Inr (eta, wave_params, g) \<Rightarrow> Some eta)"

text \<open>
  Concrete inputs: the single component \<open>{amplitude=1, kx=1, ky=0, phase=0, frequency=0}\<close>
  with a given wavelength, the mapping that holds it at index 0, and four random
  sources with all draws in \<open>[0, 1)\<close>.
\<close>

definition sine_component :: "real \<Rightarrow> wave_component" where
  "sine_component w =
     \<lparr>amplitude = 1, wavelength = w, kx = 1, ky = 0, phase = 0, frequency = 0\<rparr>"

definition sine_params :: "real \<Rightarrow> wave_params" where
  "sine_params w = Map.empty(0 \<mapsto> sine_component w)"

definition draws_quarter :: rng where
  "draws_quarter n = 1 / 4"

definition draws_half :: rng where
  "draws_half n = 1 / 2"

definition draws_zero :: rng where
  "draws_zero n = 0"

definition draws_second_zero :: rng where
  "draws_second_zero n = (if n = 6 then 0 else 1 / 2)"

section \<open>Supporting lemmas\<close>

lemma map2_same: "map2 f (map g xs) (map h xs) = map (\<lambda>x. f (g x) (h x)) xs"
  by (induction xs) simp_all

lemma length_linspace: "length (linspace a b n) = n"
  by (simp add: linspace_def)

lemma zeros_field_of: "zeros n n = field_of n (\<lambda>r c. 0)"
  by (simp add: zeros_def field_of_def map_replicate_const)

lemma meshgrid_field_of:
  assumes "length xs = n" "length ys = n"
  shows "meshgrid xs ys = (field_of n (\<lambda>r c. xs ! c), field_of n (\<lambda>r c. ys ! r))"
proof -
  have xs: "map (\<lambda>c. xs ! c) [0..<n] = xs"
    unfolding assms(1)[symmetric] by (rule map_nth)
  have "replicate n xs = map (\<lambda>r. map (\<lambda>c. xs ! c) [0..<n]) [0..<n]"
    by (simp add: map_replicate_const xs)
  moreover have "map (\<lambda>v. replicate n v) ys = map (\<lambda>r. map (\<lambda>c. ys ! r) [0..<n]) [0..<n]"
  proof -
    have "map (\<lambda>r. ys ! r) [0..<n] = ys"
      unfolding assms(2)[symmetric] by (rule map_nth)
    then have "map (\<lambda>v. replicate n v) ys = map (\<lambda>v. replicate n v) (map (\<lambda>r. ys ! r) [0..<n])"
      by simp
    then show ?thesis by (simp add: map_replicate_const comp_def)
  qed
  ultimately show ?thesis using assms by (simp add: meshgrid_def field_of_def)
qed

lemma arr_add_field_of: "arr_add (field_of n f) (field_of n h) = field_of n (\<lambda>r c. f r c + h r c)"
  by (simp add: arr_add_def field_of_def map2_same)

lemma scalar_mul_field_of: "scalar_mul k (field_of n f) = field_of n (\<lambda>r c. k * f r c)"
  by (simp add: scalar_mul_def field_of_def comp_def)

lemma sub_scalar_field_of: "sub_scalar (field_of n f) k = field_of n (\<lambda>r c. f r c - k)"
  by (simp add: sub_scalar_def field_of_def comp_def)

lemma add_scalar_field_of: "add_scalar (field_of n f) k = field_of n (\<lambda>r c. f r c + k)"
  by (simp add: add_scalar_def field_of_def comp_def)

lemma arr_sin_field_of: "arr_sin (field_of n f) = field_of n (\<lambda>r c. sin (f r c))"
  by (simp add: arr_sin_def field_of_def comp_def)

lemma accumulate_field_of:
  "accumulate (field_of n X) (field_of n Y) t c (field_of n E) =
     field_of n (\<lambda>r j. E r j + amplitude c * sin (kx c * X r j + ky c * Y r j - frequency c * t + phase c))"
  by (simp add: accumulate_def arr_add_field_of scalar_mul_field_of sub_scalar_field_of
      add_scalar_field_of arr_sin_field_of)

lemma wave_body_stored:
  assumes "time \<noteq> 0" "wp i = Some c"
  shows "wave_body x y L time sp i (eta, wp, g) = Inr (accumulate x y time c eta, wp, g)"
  using assms by (simp add: wave_body_def stored_component_def)

lemma wave_body_missing:
  assumes "time \<noteq> 0" "wp i = None"
  shows "wave_body x y L time sp i (eta, wp, g) = Inl KeyError"
  using assms by (simp add: wave_body_def stored_component_def)

lemma wave_loop_stored:
  assumes "time \<noteq> 0" "\<forall>i\<in>set is. wp i \<noteq> None"
  shows "wave_loop (field_of n X) (field_of n Y) L time sp is (field_of n E, wp, g) =
           Inr (field_of n (\<lambda>r j. E r j + (\<Sum>i\<leftarrow>is. wave_term (the (wp i)) (X r j) (Y r j) time)), wp, g)"
  using assms(2)
proof (induction "is" arbitrary: E)
  case Nil
  then show ?case by simp
next
  case (Cons i "is")
  from Cons.prems obtain c where c: "wp i = Some c" by auto
  have rest: "\<forall>k\<in>set is. wp k \<noteq> None" using Cons.prems by simp
  show ?case
    by (simp add: wave_body_stored assms(1) c accumulate_field_of Cons.IH [OF rest] c
        wave_term_def add.assoc)
qed

lemma wave_loop_missing:
  assumes "time \<noteq> 0" "i \<in> set is" "wp i = None"
  shows "wave_loop x y L time sp is (eta, wp, g) = Inl KeyError"
  using assms(2)
proof (induction "is" arbitrary: eta)
  case Nil
  then show ?case by simp
next
  case (Cons k "is")
  show ?case
  proof (cases "wp k")
    case None
    then show ?thesis by (simp add: wave_body_missing assms(1))
  next
    case (Some c)
    with Cons.prems assms(3) have "i \<in> set is" by auto
    then show ?thesis
      by (simp add: wave_body_stored assms(1) Some Cons.IH)
  qed
qed

lemma wave_loop_nonzero_frame:
  assumes "time \<noteq> 0" "wave_loop x y L time sp is (eta, wp, g) = Inr (eta', wp', g')"
  shows "wp' = wp \<and> g' = g"
  using assms(2)
proof (induction "is" arbitrary: eta)
  case Nil
  then show ?case by simp
next
  case (Cons k "is")
  show ?case
  proof (cases "wp k")
    case None
    with Cons.prems show ?thesis by (simp add: wave_body_missing assms(1))
  next
    case (Some c)
    with Cons.prems
    have "wave_loop x y L time sp is (accumulate x y time c eta, wp, g) = Inr (eta', wp', g')"
      by (simp add: wave_body_stored assms(1))
    then show ?thesis by (rule Cons.IH)
  qed
qed

lemma wave_loop_nonzero_rng:
  assumes "time \<noteq> 0"
  shows "(\<exists>e. wave_loop x y L time sp ks (eta, wp, g1) = Inl e \<and>
              wave_loop x y L time sp ks (eta, wp, g2) = Inl e) \<or>
         (\<exists>eta'. wave_loop x y L time sp ks (eta, wp, g1) = Inr (eta', wp, g1) \<and>
              wave_loop x y L time sp ks (eta, wp, g2) = Inr (eta', wp, g2))"
proof (induction ks arbitrary: eta)
  case Nil
  then show ?case by simp
next
  case (Cons k ks)
  show ?case
  proof (cases "wp k")
    case None
    then show ?thesis by (simp add: wave_body_missing assms(1))
  next
    case (Some c)
    then show ?thesis
      using Cons.IH [of "accumulate x y time c eta"]
      by (simp add: wave_body_stored assms(1) Some)
  qed
qed

lemma generate_unfold:
  "generate_irregular_waves n nw L time sp wparams g =
     wave_loop (field_of n (\<lambda>r j. linspace 0 (2 * pi) n ! j)) (field_of n (\<lambda>r j. linspace 0 (2 * pi) n ! r))
       L time sp [0..<nw]
       (field_of n (\<lambda>r j. 0), case wparams of None \<Rightarrow> Map.empty | Some m \<Rightarrow> m, g)"
  by (simp add: generate_irregular_waves_def Let_def zeros_field_of
      meshgrid_field_of [OF length_linspace length_linspace])


lemma fresh_component_eq:
  "fresh_component L sp g =
     (if g 1 * L = 0 then Inl ZeroDivisionError
      else Inr (\<lparr>amplitude = g 0 / 10, wavelength = g 1 * L,
                 kx = 2 * pi / (g 1 * L) * (2 * g 2 - 1),
                 ky = 2 * pi / (g 1 * L) * (2 * g 3 - 1),
                 phase = 2 * pi * g 4,
                 frequency = (sp / (2 * pi)) *
                   sqrt ((2 * pi / (g 1 * L) * (2 * g 2 - 1))\<^sup>2 + (2 * pi / (g 1 * L) * (2 * g 3 - 1))\<^sup>2)\<rparr>,
                \<lambda>n. g (n + 5)))"
  by (simp add: fresh_component_def rand_def py_div_def Let_def eval_nat_numeral)

lemma wave_body_zero:
  "wave_body x y L 0 sp i (eta, wp, g) =
     (case fresh_component L sp g of
        Inl e \<Rightarrow> Inl e
      | Inr (c, g') \<Rightarrow> Inr (accumulate x y 0 c eta, wp(i \<mapsto> c), g'))"
  by (simp add: wave_body_def)

lemma wave_loop_zero_inv:
  assumes step: "\<And>g c g'. R g \<Longrightarrow> fresh_component L sp g = Inr (c, g') \<Longrightarrow> R g' \<and> P c"
    and run: "wave_loop x y L 0 sp is (eta, wp, g) = Inr (eta', wp', g')"
    and start: "R g"
  shows "(\<forall>i\<in>set is. \<exists>c. wp' i = Some c \<and> P c) \<and> (\<forall>i. i \<notin> set is \<longrightarrow> wp' i = wp i)"
  using run start
proof (induction "is" arbitrary: eta wp g)
  case Nil
  then show ?case by simp
next
  case (Cons k "is")
  from Cons.prems(1) obtain c g1 where
    fresh: "fresh_component L sp g = Inr (c, g1)" and
    rest: "wave_loop x y L 0 sp is (accumulate x y 0 c eta, wp(k \<mapsto> c), g1) = Inr (eta', wp', g')"
    by (auto simp: wave_body_zero split: sum.splits prod.splits)
  from step [OF Cons.prems(2) fresh] have R1: "R g1" and Pc: "P c" by simp_all
  note ih = Cons.IH [OF rest R1]
  have new: "\<forall>i\<in>set is. \<exists>c'. wp' i = Some c' \<and> P c'"
    by (rule ih [THEN conjunct1])
  have old: "\<forall>i. i \<notin> set is \<longrightarrow> wp' i = (wp(k \<mapsto> c)) i"
    by (rule ih [THEN conjunct2])
  have "\<forall>i\<in>set (k # is). \<exists>c'. wp' i = Some c' \<and> P c'"
  proof
    fix i assume i: "i \<in> set (k # is)"
    show "\<exists>c'. wp' i = Some c' \<and> P c'"
    proof (cases "i \<in> set is")
      case True
      with new show ?thesis by blast
    next
      case False
      with i have "i = k" by simp
      with False old have "wp' i = Some c" by simp
      with Pc show ?thesis by blast
    qed
  qed
  moreover have "\<forall>i. i \<notin> set (k # is) \<longrightarrow> wp' i = wp i"
    using old by simp
  ultimately show ?case by blast
qed

lemma fresh_component_ok:
  assumes "g 1 * L \<noteq> 0"
  shows "\<exists>c. fresh_component L sp g = Inr (c, \<lambda>n. g (n + 5))"
  using assms by (simp add: fresh_component_eq)

lemma wave_loop_zero_raises:
  assumes "j < length is" "g (5 * j + 1) * L = 0"
  shows "wave_loop x y L 0 sp is (eta, wp, g) = Inl ZeroDivisionError"
  using assms
proof (induction "is" arbitrary: eta wp g j)
  case Nil
  then show ?case by simp
next
  case (Cons k "is")
  show ?case
  proof (cases "g 1 * L = 0")
    case True
    then show ?thesis by (simp add: wave_body_zero fresh_component_eq)
  next
    case False
    define g1 where "g1 = (\<lambda>n. g (n + 5))"
    from False obtain c where fresh: "fresh_component L sp g = Inr (c, g1)"
      unfolding g1_def using fresh_component_ok by blast
    from False Cons.prems(2) obtain j' where j': "j = Suc j'" by (cases j) auto
    from j' Cons.prems(1) have len: "j' < length is" by simp
    from j' Cons.prems(2) have zero: "g1 (5 * j' + 1) * L = 0"
      by (simp add: g1_def algebra_simps)
    have "wave_loop x y L 0 sp is (accumulate x y 0 c eta, wp(k \<mapsto> c), g1) = Inl ZeroDivisionError"
      using len zero by (rule Cons.IH)
    then show ?thesis by (simp add: wave_body_zero fresh)
  qed
qed

lemma wave_loop_zero_returns:
  assumes "\<forall>j<length is. g (5 * j + 1) * L \<noteq> 0"
  shows "\<exists>eta' wp' g'. wave_loop x y L 0 sp is (eta, wp, g) = Inr (eta', wp', g')"
  using assms
proof (induction "is" arbitrary: eta wp g)
  case Nil
  then show ?case by simp
next
  case (Cons k "is")
  define g1 where "g1 = (\<lambda>n. g (n + 5))"
  from Cons.prems have first: "g 1 * L \<noteq> 0" by force
  then obtain c where fresh: "fresh_component L sp g = Inr (c, g1)"
    unfolding g1_def using fresh_component_ok by blast
  have later: "\<forall>j<length is. g1 (5 * j + 1) * L \<noteq> 0"
  proof (intro allI impI)
    fix j assume "j < length is"
    then have "Suc j < length (k # is)" by simp
    with Cons.prems have "g (5 * Suc j + 1) * L \<noteq> 0" by blast
    then show "g1 (5 * j + 1) * L \<noteq> 0" by (simp add: g1_def algebra_simps)
  qed
  have "\<exists>eta' wp' g'. wave_loop x y L 0 sp is (accumulate x y 0 c eta, wp(k \<mapsto> c), g1) = Inr (eta', wp', g')"
    using later by (rule Cons.IH)
  then show ?case by (simp add: wave_body_zero fresh)
qed

lemma generate_zero_returns:
  assumes "\<forall>i<nw. g (5 * i + 1) * L \<noteq> 0"
  shows "\<exists>eta wp g'. generate_irregular_waves n nw L 0 sp wparams g = Inr (eta, wp, g')"
  unfolding generate_unfold
  by (rule wave_loop_zero_returns) (use assms in simp)

lemma generate_stored:
  assumes "time \<noteq> 0" "\<forall>i<nw. wp i \<noteq> None"
  shows "generate_irregular_waves n nw L time sp (Some wp) g =
     Inr (field_of n (\<lambda>r j. \<Sum>i<nw.
            wave_term (the (wp i)) (linspace 0 (2 * pi) n ! j) (linspace 0 (2 * pi) n ! r) time),
          wp, g)"
proof -
  have "\<forall>i\<in>set [0..<nw]. wp i \<noteq> None" using assms(2) by simp
  then show ?thesis
    by (simp add: generate_unfold wave_loop_stored assms(1) interv_sum_list_conv_sum_set_nat
        atLeast0LessThan)
qed

lemma field_of_shape:
  "length (field_of n f) = n \<and> (\<forall>row\<in>set (field_of n f). length row = n)"
  by (auto simp: field_of_def)

lemma wave_body_field:
  assumes "wave_body (field_of n X) (field_of n Y) L t sp i (field_of n E, wp, g) = Inr (eta', wp', g')"
  shows "\<exists>E'. eta' = field_of n E'"
proof -
  from assms obtain c where "eta' = accumulate (field_of n X) (field_of n Y) t c (field_of n E)"
    by (auto simp: wave_body_def split: if_splits sum.splits prod.splits)
  then have "eta' = field_of n (\<lambda>r j. E r j +
      amplitude c * sin (kx c * X r j + ky c * Y r j - frequency c * t + phase c))"
    by (simp add: accumulate_field_of)
  then show ?thesis by blast
qed

lemma wave_loop_field:
  assumes "wave_loop (field_of n X) (field_of n Y) L t sp is (field_of n E, wp, g) = Inr (eta', wp', g')"
  shows "\<exists>E'. eta' = field_of n E'"
  using assms
proof (induction "is" arbitrary: E wp g)
  case Nil
  then show ?case by auto
next
  case (Cons k "is")
  from Cons.prems obtain eta1 wp1 g1 where
    first: "wave_body (field_of n X) (field_of n Y) L t sp k (field_of n E, wp, g) = Inr (eta1, wp1, g1)" and
    rest: "wave_loop (field_of n X) (field_of n Y) L t sp is (eta1, wp1, g1) = Inr (eta', wp', g')"
    by (auto split: sum.splits)
  from wave_body_field [OF first] obtain E1 where "eta1 = field_of n E1" by blast
  with rest show ?case using Cons.IH by blast
qed

lemma fresh_component_bounds:
  assumes "unit_draws g" "0 < L" "fresh_component L sp g = Inr (c, g')"
  shows "unit_draws g' \<and>
         (0 \<le> amplitude c \<and> amplitude c < 1 / 10 \<and> 0 < wavelength c \<and> wavelength c < L)"
proof -
  from assms(3) have nz: "g 1 * L \<noteq> 0" and a: "amplitude c = g 0 / 10"
    and w: "wavelength c = g 1 * L" and g': "g' = (\<lambda>n. g (n + 5))"
    by (auto simp: fresh_component_eq split: if_splits)
  from assms(1) have d0: "0 \<le> g 0" "g 0 < 1" and d1: "0 \<le> g 1" "g 1 < 1"
    by (simp_all add: unit_draws_def)
  from nz d1(1) have pos: "0 < g 1" by (cases "g 1 = 0") simp_all
  have "unit_draws g'" using assms(1) by (simp add: g' unit_draws_def)
  moreover have "0 \<le> amplitude c" "amplitude c < 1 / 10" using d0 by (simp_all add: a)
  moreover have "0 < wavelength c" using pos assms(2) by (simp add: w)
  moreover have "wavelength c < L" using d1(2) assms(2) by (simp add: w)
  ultimately show ?thesis by simp
qed

lemma fresh_component_dispersion:
  assumes "fresh_component L sp g = Inr (c, g')"
  shows "True \<and> frequency c = (sp / (2 * pi)) * sqrt ((kx c)\<^sup>2 + (ky c)\<^sup>2)"
  using assms by (auto simp: fresh_component_eq split: if_splits)

lemma field_of_rows:
  assumes "length xs = n"
  shows "field_of n (\<lambda>r j. f (xs ! j)) = replicate n (map f xs)"
proof -
  have "map (\<lambda>j. xs ! j) [0..<n] = xs"
    unfolding assms [symmetric] by (rule map_nth)
  then have "map f xs = map (\<lambda>j. f (xs ! j)) [0..<n]"
    by (metis (no_types, lifting) map_map comp_def map_eq_conv)
  then show ?thesis
    by (simp add: field_of_def map_replicate_const)
qed

lemma linspace_first:
  assumes "0 < n"
  shows "linspace a b n ! 0 = a"
  using assms by (simp add: linspace_def)

lemma linspace_last:
  assumes "1 < n"
  shows "linspace a b n ! (n - 1) = b"
  using assms by (simp add: linspace_def)

text \<open>The field of one wave on the grid of a single point, for two random sources.\<close>

lemma height_field_draws_quarter:
  "height_field (generate_irregular_waves 1 1 10 0 1 wparams draws_quarter) = Some ([1 / 40] # [])"
  by (simp add: generate_irregular_waves_def linspace_def meshgrid_def zeros_def
      wave_body_zero fresh_component_eq accumulate_def arr_add_def scalar_mul_def
      sub_scalar_def add_scalar_def arr_sin_def draws_quarter_def height_field_def)

lemma height_field_draws_half:
  "height_field (generate_irregular_waves 1 1 10 0 1 wparams draws_half) = Some ([0] # [])"
  by (simp add: generate_irregular_waves_def linspace_def meshgrid_def zeros_def
      wave_body_zero fresh_component_eq accumulate_def arr_add_def scalar_mul_def
      sub_scalar_def add_scalar_def arr_sin_def draws_half_def height_field_def)

section \<open>The properties\<close>

subsection \<open>C1: the field is the sum of the components\<close>

text \<open>
  C1. For a call with \<open>time \<noteq> 0\<close> and a mapping that has an entry for every index
  below \<open>num_waves\<close>, the call returns, and the returned field holds, in row \<open>r\<close> and
  column \<open>j\<close>, the sum over the components \<open>i\<close> of
  \<open>amplitude\<^sub>i * sin (kx\<^sub>i * x + ky\<^sub>i * y - frequency\<^sub>i * time + phase\<^sub>i)\<close> at
  \<open>x = linspace 0 (2 * pi) grid_size ! j\<close> and \<open>y = linspace 0 (2 * pi) grid_size ! r\<close>:
  the accumulation starts from zeros, on the mesh of the two linearly spaced sequences.
\<close>

theorem field_is_sum_of_components:
  assumes "time \<noteq> 0" and "\<forall>i<num_waves. wp i \<noteq> None"
  shows "generate_irregular_waves grid_size num_waves length_scale time speed (Some wp) g =
     Inr (field_of grid_size (\<lambda>r j. \<Sum>i<num_waves.
            wave_term (the (wp i))
              (linspace 0 (2 * pi) grid_size ! j) (linspace 0 (2 * pi) grid_size ! r) time),
          wp, g)"
  using assms by (rule generate_stored)

theorem field_is_sum_of_components_witness:
  "(1::real) \<noteq> 0 \<and> sine_params 1 0 \<noteq> None \<and>
   generate_irregular_waves 2 1 10 1 1 (Some (sine_params 1)) draws_half =
     Inr (field_of 2 (\<lambda>r j. \<Sum>i<1.
            wave_term (the (sine_params 1 i))
              (linspace 0 (2 * pi) 2 ! j) (linspace 0 (2 * pi) 2 ! r) 1),
          sine_params 1, draws_half)"
proof (intro conjI)
  show t: "(1::real) \<noteq> 0" by simp
  show p0: "sine_params 1 0 \<noteq> None" by (simp add: sine_params_def)
  then have p: "\<forall>i<1. sine_params 1 i \<noteq> None" by simp
  show "generate_irregular_waves 2 1 10 1 1 (Some (sine_params 1)) draws_half =
     Inr (field_of 2 (\<lambda>r j. \<Sum>i<1.
            wave_term (the (sine_params 1 i))
              (linspace 0 (2 * pi) 2 ! j) (linspace 0 (2 * pi) 2 ! r) 1),
          sine_params 1, draws_half)"
    by (rule field_is_sum_of_components
        [where time = 1 and num_waves = 1 and wp = "sine_params 1", OF t p])
qed

subsection \<open>C2: determinism\<close>

text \<open>
  C2, as stated, claims the same field from two calls with the same arguments at every
  time, \<open>time = 0\<close> included. At \<open>time = 0\<close> the source draws every component anew,
  so two calls whose random source is in different states return different fields,
  whatever mapping they were given.
\<close>

theorem determinism_at_zero_counterexample:
  "height_field (generate_irregular_waves 1 1 10 0 1 (Some (sine_params 1)) draws_quarter)
   \<noteq> height_field (generate_irregular_waves 1 1 10 0 1 (Some (sine_params 1)) draws_half)"
  unfolding height_field_draws_quarter height_field_draws_half by simp

text \<open>
  C2, amended. For every \<open>time \<noteq> 0\<close>, two calls with the same arguments return the
  same field and the same mapping (or raise the same exception), whatever the states of
  the random source.
\<close>

theorem determinism_at_nonzero_time:
  assumes "time \<noteq> 0"
  shows "returned (generate_irregular_waves grid_size num_waves length_scale time speed wave_params g1)
       = returned (generate_irregular_waves grid_size num_waves length_scale time speed wave_params g2)"
proof -
  let ?x = "field_of grid_size (\<lambda>r j. linspace 0 (2 * pi) grid_size ! j)"
  let ?y = "field_of grid_size (\<lambda>r j. linspace 0 (2 * pi) grid_size ! r)"
  let ?eta = "field_of grid_size (\<lambda>r j. 0)"
  let ?wp = "case wave_params of None \<Rightarrow> Map.empty | Some m \<Rightarrow> m"
  from wave_loop_nonzero_rng [OF assms, where x = ?x and y = ?y and L = length_scale
      and sp = speed and ks = "[0..<num_waves]" and eta = ?eta and wp = ?wp
      and ?g1.0 = g1 and ?g2.0 = g2]
  show ?thesis
    unfolding generate_unfold returned_def by (elim disjE exE conjE) simp_all
qed

theorem determinism_at_nonzero_time_witness:
  "(5::real) \<noteq> 0 \<and>
   returned (generate_irregular_waves 4 1 10 5 1
       (Some (sine_params 1)) draws_quarter)
   = returned (generate_irregular_waves 4 1 10 5 1
       (Some (sine_params 1)) draws_half)"
proof (intro conjI)
  show t: "(5::real) \<noteq> 0" by simp
  show "returned (generate_irregular_waves 4 1 10 5 1
       (Some (sine_params 1)) draws_quarter)
   = returned (generate_irregular_waves 4 1 10 5 1
       (Some (sine_params 1)) draws_half)"
    by (rule determinism_at_nonzero_time [OF t])
qed

subsection \<open>C3: the mapping generated at time 0\<close>

text \<open>
  C3. When the call at \<open>time = 0\<close> with an absent or empty mapping returns, the returned
  mapping has exactly the indices \<open>0 .. num_waves - 1\<close>, and every entry has its
  amplitude in \<open>[0, 0.1)\<close> and its wavelength strictly between 0 and \<open>length_scale\<close>.
  The draws lie in \<open>[0, 1)\<close> and \<open>length_scale\<close> is positive, as the contract of the
  function says. A wavelength of exactly 0 is never returned: the division by it raises
  before the component is stored.
\<close>

theorem zero_time_generation_completeness:
  assumes "unit_draws g" and "0 < length_scale"
    and "wave_params = None \<or> wave_params = Some Map.empty"
    and "generate_irregular_waves grid_size num_waves length_scale 0 speed wave_params g
           = Inr (eta, wp, g')"
  shows "dom wp = {..<num_waves} \<and>
         (\<forall>i<num_waves. \<exists>c. wp i = Some c \<and> 0 \<le> amplitude c \<and> amplitude c < 1 / 10 \<and>
                           0 < wavelength c \<and> wavelength c < length_scale)"
proof -
  let ?P = "\<lambda>c. 0 \<le> amplitude c \<and> amplitude c < 1 / 10 \<and>
                 0 < wavelength c \<and> wavelength c < length_scale"
  from assms(3) have start: "(case wave_params of None \<Rightarrow> Map.empty | Some m \<Rightarrow> m) = Map.empty"
    by auto
  from assms(4) have run:
    "wave_loop (field_of grid_size (\<lambda>r j. linspace 0 (2 * pi) grid_size ! j))
       (field_of grid_size (\<lambda>r j. linspace 0 (2 * pi) grid_size ! r))
       length_scale 0 speed [0..<num_waves]
       (field_of grid_size (\<lambda>r j. 0), Map.empty, g) = Inr (eta, wp, g')"
    by (simp add: generate_unfold start)
  have step: "\<And>g c g'. unit_draws g \<Longrightarrow> fresh_component length_scale speed g = Inr (c, g')
      \<Longrightarrow> unit_draws g' \<and> ?P c"
    using assms(2) by (rule fresh_component_bounds [rotated])
  note inv = wave_loop_zero_inv [where R = unit_draws and P = ?P, OF step run assms(1)]
  have new: "\<forall>i\<in>set [0..<num_waves]. \<exists>c. wp i = Some c \<and> ?P c"
    by (rule inv [THEN conjunct1])
  have old: "\<forall>i. i \<notin> set [0..<num_waves] \<longrightarrow> wp i = None"
    using inv [THEN conjunct2] by simp
  have "dom wp = {..<num_waves}"
  proof (rule set_eqI)
    fix i show "i \<in> dom wp \<longleftrightarrow> i \<in> {..<num_waves}"
      using new old by (cases "i < num_waves") (auto simp: dom_def)
  qed
  moreover have "\<forall>i<num_waves. \<exists>c. wp i = Some c \<and> ?P c"
    using new by simp
  ultimately show ?thesis by simp
qed

theorem zero_time_generation_completeness_witness:
  "unit_draws draws_half \<and> (0::real) < 10 \<and>
   (\<exists>eta wp g'. generate_irregular_waves 4 2 10 0 1 None draws_half = Inr (eta, wp, g') \<and>
      dom wp = {..<2} \<and>
      (\<forall>i<2. \<exists>c. wp i = Some c \<and> 0 \<le> amplitude c \<and> amplitude c < 1 / 10 \<and>
                   0 < wavelength c \<and> wavelength c < 10))"
proof -
  have u: "unit_draws draws_half" by (simp add: unit_draws_def draws_half_def)
  have l: "(0::real) < 10" by simp
  have "\<forall>i<2. draws_half (5 * i + 1) * 10 \<noteq> 0" by (simp add: draws_half_def)
  from generate_zero_returns [OF this] obtain eta wp g' where
    r: "generate_irregular_waves 4 2 10 0 1 None draws_half = Inr (eta, wp, g')"
    by blast
  have e: "(None :: wave_params option) = None \<or> None = Some Map.empty" by simp
  from zero_time_generation_completeness [OF u l e r] u l r show ?thesis by blast
qed

subsection \<open>C4: the dispersion relation\<close>

text \<open>
  C4. Every component a returning call at \<open>time = 0\<close> stores, one for each index below
  \<open>num_waves\<close>, has \<open>frequency = (speed / (2 * pi)) * sqrt (kx\<^sup>2 + ky\<^sup>2)\<close> for its
  own stored wavenumbers (exactly so over the reals, hence within every tolerance).
\<close>

theorem dispersion_relation:
  assumes "generate_irregular_waves grid_size num_waves length_scale 0 speed wave_params g
             = Inr (eta, wp, g')"
    and "i < num_waves"
  shows "\<exists>c. wp i = Some c \<and> frequency c = (speed / (2 * pi)) * sqrt ((kx c)\<^sup>2 + (ky c)\<^sup>2)"
proof -
  let ?P = "\<lambda>c. frequency c = (speed / (2 * pi)) * sqrt ((kx c)\<^sup>2 + (ky c)\<^sup>2)"
  from assms(1) have run:
    "wave_loop (field_of grid_size (\<lambda>r j. linspace 0 (2 * pi) grid_size ! j))
       (field_of grid_size (\<lambda>r j. linspace 0 (2 * pi) grid_size ! r))
       length_scale 0 speed [0..<num_waves]
       (field_of grid_size (\<lambda>r j. 0), case wave_params of None \<Rightarrow> Map.empty | Some m \<Rightarrow> m, g)
     = Inr (eta, wp, g')"
    by (simp add: generate_unfold)
  have step: "\<And>g c g'. True \<Longrightarrow> fresh_component length_scale speed g = Inr (c, g')
      \<Longrightarrow> True \<and> ?P c"
    by (rule fresh_component_dispersion)
  have "\<forall>i\<in>set [0..<num_waves]. \<exists>c. wp i = Some c \<and> ?P c"
    by (rule wave_loop_zero_inv [where R = "\<lambda>g. True" and P = ?P, OF step run TrueI, THEN conjunct1])
  with assms(2) show ?thesis by simp
qed

theorem dispersion_relation_witness:
  "\<exists>eta wp g'. generate_irregular_waves 4 2 10 0 1 None draws_quarter = Inr (eta, wp, g') \<and>
     (1::nat) < 2 \<and>
     (\<exists>c. wp 1 = Some c \<and> frequency c = (1 / (2 * pi)) * sqrt ((kx c)\<^sup>2 + (ky c)\<^sup>2))"
proof -
  have "\<forall>i<2. draws_quarter (5 * i + 1) * 10 \<noteq> 0" by (simp add: draws_quarter_def)
  from generate_zero_returns [OF this] obtain eta wp g' where
    r: "generate_irregular_waves 4 2 10 0 1 None draws_quarter = Inr (eta, wp, g')"
    by blast
  have i: "(1::nat) < 2" by simp
  from dispersion_relation [OF r i] r i show ?thesis by blast
qed

subsection \<open>C5: a missing entry at a non-zero time\<close>

text \<open>
  C5. If \<open>time \<noteq> 0\<close> and the supplied mapping has no entry for some index below
  \<open>num_waves\<close> (an absent or empty mapping has none for any index), the call raises
  \<open>KeyError\<close> and returns no field; so does the call with \<open>time = 5\<close> and an absent
  or empty mapping.
\<close>

theorem missing_parameter_raises:
  assumes "time \<noteq> 0" and "i < num_waves"
    and "(case wave_params of None \<Rightarrow> None | Some m \<Rightarrow> m i) = None"
  shows "generate_irregular_waves grid_size num_waves length_scale time speed wave_params g
           = Inl KeyError"
proof -
  from assms(3) have "(case wave_params of None \<Rightarrow> Map.empty | Some m \<Rightarrow> m) i = None"
    by (cases wave_params) simp_all
  moreover from assms(2) have "i \<in> set [0..<num_waves]" by simp
  ultimately show ?thesis
    unfolding generate_unfold using assms(1) by (intro wave_loop_missing)
qed

theorem missing_parameter_raises_witness:
  "(5::real) \<noteq> 0 \<and> (0::nat) < 1 \<and>
   generate_irregular_waves 4 1 10 5 1 None draws_half = Inl KeyError \<and>
   generate_irregular_waves 4 1 10 5 1 (Some Map.empty) draws_half = Inl KeyError"
proof (intro conjI)
  show t: "(5::real) \<noteq> 0" by simp
  show i: "(0::nat) < 1" by simp
  show "generate_irregular_waves 4 1 10 5 1 None draws_half = Inl KeyError"
    by (rule missing_parameter_raises [OF t i]) simp
  show "generate_irregular_waves 4 1 10 5 1 (Some Map.empty) draws_half = Inl KeyError"
    by (rule missing_parameter_raises [OF t i]) simp
qed

subsection \<open>C6: the mapping is returned unchanged\<close>

text \<open>
  C6. A call with \<open>time \<noteq> 0\<close> and a mapping populated below \<open>num_waves\<close> returns that
  very mapping, and so does every run of the driver loop over frames whose times are
  all non-zero: no entry changes across any sequence of such calls. The random source
  is not consumed either.
\<close>

theorem parameter_stability:
  assumes "\<forall>i<num_waves. m i \<noteq> None"
  shows "(time \<noteq> 0 \<longrightarrow>
            (\<exists>eta. generate_irregular_waves grid_size num_waves length_scale time speed (Some m) g
                     = Inr (eta, m, g))) \<and>
         ((\<forall>frame\<in>set frames. real frame * time_interval \<noteq> 0) \<longrightarrow>
            (\<exists>etas. frames_loop grid_size num_waves length_scale speed time_interval frames (Some m) g
                     = Inr (etas, Some m, g) \<and> length etas = length frames))"
proof (intro conjI impI)
  assume "time \<noteq> 0"
  then show "\<exists>eta. generate_irregular_waves grid_size num_waves length_scale time speed (Some m) g
                     = Inr (eta, m, g)"
    using assms by (simp add: generate_stored)
next
  assume "\<forall>frame\<in>set frames. real frame * time_interval \<noteq> 0"
  then show "\<exists>etas. frames_loop grid_size num_waves length_scale speed time_interval frames (Some m) g
                     = Inr (etas, Some m, g) \<and> length etas = length frames"
  proof (induction frames)
    case Nil
    then show ?case by simp
  next
    case (Cons frame frames)
    from Cons.prems have t: "real frame * time_interval \<noteq> 0" by simp
    from Cons.prems have "\<forall>f\<in>set frames. real f * time_interval \<noteq> 0" by simp
    from Cons.IH [OF this] obtain etas where
      rest: "frames_loop grid_size num_waves length_scale speed time_interval frames (Some m) g
               = Inr (etas, Some m, g)" and len: "length etas = length frames"
      by blast
    show ?case
      by (simp add: generate_stored [OF t assms] rest len)
  qed
qed

theorem parameter_stability_witness:
  "sine_params 1 0 \<noteq> None \<and> (5::real) \<noteq> 0 \<and>
   real 1 * (1 / 5) \<noteq> 0 \<and> real 2 * (1 / 5) \<noteq> 0 \<and> real 3 * (1 / 5) \<noteq> 0 \<and>
   (\<exists>eta. generate_irregular_waves 4 1 10 5 1 (Some (sine_params 1)) draws_half
            = Inr (eta, sine_params 1, draws_half)) \<and>
   (\<exists>etas. frames_loop 4 1 10 1 (1 / 5) [1, 2, 3] (Some (sine_params 1)) draws_half
            = Inr (etas, Some (sine_params 1), draws_half) \<and> length etas = length [1 :: nat, 2, 3])"
proof -
  have p0: "sine_params 1 0 \<noteq> None" by (simp add: sine_params_def)
  then have p: "\<forall>i<1. sine_params 1 i \<noteq> None" by simp
  have t: "(5::real) \<noteq> 0" by simp
  have f1: "real 1 * (1 / 5) \<noteq> 0" and f2: "real 2 * (1 / 5) \<noteq> 0"
    and f3: "real 3 * (1 / 5) \<noteq> 0" by simp_all
  then have f: "\<forall>frame\<in>set [1, 2, 3]. real frame * (1 / 5) \<noteq> 0" by simp
  note s = parameter_stability [OF p, where time = 5 and frames = "[1, 2, 3]"
      and time_interval = "1 / 5" and grid_size = 4 and length_scale = 10 and speed = 1
      and g = draws_half]
  from s [THEN conjunct1, THEN mp, OF t] s [THEN conjunct2, THEN mp, OF f] p0 t f1 f2 f3
  show ?thesis by (intro conjI)
qed

subsection \<open>C7: a single sine component\<close>

text \<open>
  C7, as stated, claims the field \<open>sin x\<close> in every row at any time. At \<open>time = 0\<close>
  the source overwrites entry 0 with a freshly drawn component, so the field is that of
  the drawn component, not of the one supplied.
\<close>

theorem single_sine_at_zero_counterexample:
  "height_field (generate_irregular_waves 1 1 10 0 1 (Some (sine_params 1)) draws_quarter)
   \<noteq> Some (replicate 1 (map sin (linspace 0 (2 * pi) 1)))"
  unfolding height_field_draws_quarter by (simp add: linspace_def)

text \<open>
  C7, amended. With \<open>num_waves = 1\<close> and the mapping
  \<open>{0: {amplitude=1, kx=1, ky=0, phase=0, frequency=0}}\<close> (wavelength arbitrary), the
  field returned at any \<open>time \<noteq> 0\<close> is \<open>sin x\<close> in every row: an entry depends on its
  column only.
\<close>

theorem single_sine_field:
  assumes "time \<noteq> 0"
  shows "generate_irregular_waves grid_size 1 length_scale time speed (Some (sine_params w)) g =
     Inr (replicate grid_size (map sin (linspace 0 (2 * pi) grid_size)), sine_params w, g)"
proof -
  have p: "\<forall>i<1. sine_params w i \<noteq> None" by (simp add: sine_params_def)
  have "field_of grid_size (\<lambda>r j. \<Sum>i<1. wave_term (the (sine_params w i))
            (linspace 0 (2 * pi) grid_size ! j) (linspace 0 (2 * pi) grid_size ! r) time)
      = field_of grid_size (\<lambda>r j. sin (linspace 0 (2 * pi) grid_size ! j))"
    by (simp add: sine_params_def sine_component_def wave_term_def)
  also have "\<dots> = replicate grid_size (map sin (linspace 0 (2 * pi) grid_size))"
    by (rule field_of_rows) (rule length_linspace)
  finally show ?thesis
    by (simp only: generate_stored [OF assms p])
qed

theorem single_sine_field_witness:
  "(3::real) \<noteq> 0 \<and>
   generate_irregular_waves 4 1 10 3 1 (Some (sine_params 7)) draws_half =
     Inr (replicate 4 (map sin (linspace 0 (2 * pi) 4)), sine_params 7, draws_half)"
proof (intro conjI)
  show t: "(3::real) \<noteq> 0" by simp
  show "generate_irregular_waves 4 1 10 3 1 (Some (sine_params 7)) draws_half =
     Inr (replicate 4 (map sin (linspace 0 (2 * pi) 4)), sine_params 7, draws_half)"
    by (rule single_sine_field [OF t])
qed

subsection \<open>C8: the shape of the field\<close>

text \<open>
  C8. Whatever \<open>num_waves\<close>, the time and the mapping, a call that returns gives a field
  of \<open>grid_size\<close> rows with \<open>grid_size\<close> entries each.
\<close>

theorem shape_invariant:
  assumes "generate_irregular_waves grid_size num_waves length_scale time speed wave_params g
             = Inr (eta, wp, g')"
  shows "length eta = grid_size \<and> (\<forall>row\<in>set eta. length row = grid_size)"
proof -
  from assms obtain E where "eta = field_of grid_size E"
    unfolding generate_unfold by (blast dest: wave_loop_field)
  then show ?thesis using field_of_shape [of grid_size E] by simp
qed

theorem shape_invariant_witness:
  "\<exists>eta wp g'. generate_irregular_waves 4 2 10 0 1 None draws_half = Inr (eta, wp, g') \<and>
     length eta = 4 \<and> (\<forall>row\<in>set eta. length row = 4)"
proof -
  have "\<forall>i<2. draws_half (5 * i + 1) * 10 \<noteq> 0" by (simp add: draws_half_def)
  from generate_zero_returns [OF this] obtain eta wp g' where
    r: "generate_irregular_waves 4 2 10 0 1 None draws_half = Inr (eta, wp, g')"
    by blast
  from shape_invariant [OF r] r show ?thesis by blast
qed

subsection \<open>C9: no waves\<close>

text \<open>
  C9. With \<open>num_waves = 0\<close> the call never raises, whatever the time and the mapping,
  absent included: it returns the all-zeros field of \<open>grid_size\<close> rows and columns with
  the mapping it was given, or the empty mapping when that was absent.
\<close>

theorem no_waves_returns_zeros:
  "generate_irregular_waves grid_size 0 length_scale time speed wave_params g =
     Inr (replicate grid_size (replicate grid_size 0),
          (case wave_params of None \<Rightarrow> Map.empty | Some m \<Rightarrow> m), g)"
  by (simp add: generate_irregular_waves_def meshgrid_def zeros_def)

subsection \<open>C10: the division by the wavelength\<close>

text \<open>
  C10, as stated, has a zero wavelength give non-finite wavenumbers that reach the
  stored component and the returned field, with no error. The division is one of Python
  floats: with a zero draw for the wavelength the call raises \<open>ZeroDivisionError\<close>,
  and returns neither a mapping nor a field.
\<close>

theorem zero_wavelength_counterexample:
  "generate_irregular_waves 1 1 10 0 1 None draws_zero = Inl ZeroDivisionError"
  by (simp add: generate_irregular_waves_def linspace_def meshgrid_def zeros_def
      wave_body_zero fresh_component_eq draws_zero_def)

text \<open>
  C10, amended. The division \<open>2 * pi / wavelength\<close> of the branch \<open>time = 0\<close> is
  unguarded and the sampled wavelength may be 0: whenever the draw for the wavelength of
  some component \<open>i < num_waves\<close> (the second of its five draws) makes
  \<open>draw * length_scale\<close> exactly 0, the call raises \<open>ZeroDivisionError\<close>.
\<close>

theorem zero_wavelength_raises:
  assumes "i < num_waves" and "g (5 * i + 1) * length_scale = 0"
  shows "generate_irregular_waves grid_size num_waves length_scale 0 speed wave_params g
           = Inl ZeroDivisionError"
  unfolding generate_unfold
  by (rule wave_loop_zero_raises [where j = i]) (use assms in simp_all)

theorem zero_wavelength_raises_witness:
  "(1::nat) < 2 \<and> draws_second_zero (5 * 1 + 1) * 10 = 0 \<and>
   generate_irregular_waves 4 2 10 0 1 None draws_second_zero = Inl ZeroDivisionError"
proof (intro conjI)
  show i: "(1::nat) < 2" by simp
  show z: "draws_second_zero (5 * 1 + 1) * 10 = 0" by (simp add: draws_second_zero_def)
  show "generate_irregular_waves 4 2 10 0 1 None draws_second_zero = Inl ZeroDivisionError"
    by (rule zero_wavelength_raises
        [where i = 1 and g = draws_second_zero and length_scale = 10, OF i z])
qed

end
